theory Spec2Isabelle
  imports Main
begin

section \<open>The LINE Bot MCP server over SSE (src/index.ts)\<close>

text \<open>
  The server is a single-threaded Node.js program: every callback runs to its next
  \<open>await\<close> without interruption, and the two module-level tables
  \<open>transports\<close> and \<open>completionCallbacks\<close> are the only shared
  mutable state. The model is a state record and one function per callback segment;
  an interleaving of callbacks is a list of events, executed by \<open>run\<close>.

  What lies outside the file is a parameter of the model: the LINE client
  (\<open>messagingApiClient\<close>), \<open>JSON.stringify\<close> (applied to the parsed JSON
  the client returns, on which it does not throw), the process environment, and the
  MCP SDK, which decides when \<open>handlePostMessage\<close> settles and when a tool
  handler is called.
\<close>

subsection \<open>Plain objects used as dictionaries\<close>

text \<open>
  Both tables are created as \<open>{}\<close>, so their prototype is \<open>Object.prototype\<close>.
  A read \<open>table[key]\<close> returns the own property when there is one, and otherwise
  looks the key up in the prototype: for the property names below it yields a built-in
  value (a function, or the prototype object for \<open>__proto__\<close>), which is truthy
  and is not a transport.
\<close>

definition object_prototype_properties :: "string list" where
  "object_prototype_properties =
     [''constructor'', ''__defineGetter__'', ''__defineSetter__'', ''hasOwnProperty'',
      ''__lookupGetter__'', ''__lookupSetter__'', ''isPrototypeOf'',
      ''propertyIsEnumerable'', ''toString'', ''valueOf'', ''__proto__'',
      ''toLocaleString'']"

datatype 'v js_property = Undefined | Own 'v | Inherited

definition js_get :: "(string \<rightharpoonup> 'v) \<Rightarrow> string \<Rightarrow> 'v js_property" where
  "js_get obj key =
     (case obj key of
        Some v \<Rightarrow> Own v
      | None \<Rightarrow> if key \<in> set object_prototype_properties then Inherited else Undefined)"

subsection \<open>Data\<close>

type_synonym request_id = nat

text \<open>An \<open>SSEServerTransport\<close>; the file reads only its \<open>sessionId\<close>.\<close>

datatype transport = SSEServerTransport (transport_sessionId: string)

text \<open>The second argument of a tool handler. Both it and its field may be undefined.\<close>

record extra =
  sessionId :: "string option"

datatype flex_container_type = Bubble | Carousel

record flex_container =
  container_type :: flex_container_type
  passthrough :: string

text \<open>The validated \<open>message\<close> argument: \<open>{ type: "text", text }\<close> or
  \<open>{ type: "flex", altText, contents }\<close>.\<close>

datatype line_message =
    TextMessage string
  | FlexMessage string flex_container

record push_message_request =
  to :: string
  messages :: "line_message list"

datatype remote_call = PushMessage push_message_request | GetProfile string

text \<open>The value caught by \<open>catch (error)\<close>: the LINE client rejects with an
  \<open>Error\<close> object, of which the handlers read the \<open>message\<close>.\<close>

datatype js_error = Error (message: string)

text \<open>How an awaited promise settles.\<close>

datatype 'r settled = Resolved 'r | Rejected js_error

record 'r messaging_api_client =
  pushMessage :: "push_message_request \<Rightarrow> 'r settled"
  getProfile :: "string \<Rightarrow> 'r settled"

record 'r world =
  process_env :: "string \<rightharpoonup> string"
  messagingApiClient :: "'r messaging_api_client"
  JSON_stringify :: "'r \<Rightarrow> string"

text \<open>A content item \<open>{ type: "text", text }\<close>, and the object a handler returns;
  \<open>isError\<close> is absent on success.\<close>

datatype content = TextContent string

record tool_result =
  isError :: "bool option"
  content :: "content list"

record http_response =
  status :: nat
  body :: string

text \<open>
  One run of the \<open>POST /messages\<close> callback. It is suspended at
  \<open>await transport.handlePostMessage(...)\<close> (remembering its \<open>sessionId\<close>,
  which the \<open>catch\<close> block uses), or at \<open>await toolExecutionComplete\<close>, or it
  has run to the end of the \<open>try\<close> block, or it has sent a response itself.
  The file sends only the 400 and the 500; any other response to the request is
  written by the SDK inside \<open>handlePostMessage\<close>.
\<close>

datatype request_state =
    Awaiting_handlePostMessage string
  | Awaiting_toolExecutionComplete
  | Finished
  | Responded http_response

text \<open>
  A request is identified by its position in \<open>requests\<close>. The value stored in
  \<open>completionCallbacks\<close> is the \<open>resolve\<close> function of the promise
  \<open>toolExecutionComplete\<close> of one request, so the table maps a key to a request.
  \<open>fired\<close> lists the calls of such functions in order; the promise of request
  \<open>r\<close> is resolved once \<open>r\<close> occurs in it.
\<close>

record state =
  transports :: "string \<rightharpoonup> transport"
  completionCallbacks :: "string \<rightharpoonup> request_id"
  requests :: "request_state list"
  fired :: "request_id list"
  remote_calls :: "remote_call list"
  tool_results :: "tool_result list"

definition init :: state where
  "init = \<lparr>transports = Map.empty, completionCallbacks = Map.empty, requests = [],
            fired = [], remote_calls = [], tool_results = []\<rparr>"

subsection \<open>Configuration\<close>

text \<open>\<open>process.env.DESTINATION_USER_ID || ""\<close>: an unset or empty variable gives
  the empty string.\<close>

definition destinationId :: "(string \<rightharpoonup> string) \<Rightarrow> string" where
  "destinationId env =
     (case env ''DESTINATION_USER_ID'' of
        None \<Rightarrow> ''''
      | Some v \<Rightarrow> if v = '''' then '''' else v)"

subsection \<open>Completion signalling\<close>

text \<open>
  Calling the \<open>resolve\<close> function of request \<open>r\<close>. A request suspended at
  \<open>await toolExecutionComplete\<close> then resumes, flushes and ends; the resumption
  touches neither table, so it is folded into the call.
\<close>

definition resolve :: "request_id \<Rightarrow> state \<Rightarrow> state" where
  "resolve r st =
     st\<lparr>fired := fired st @ [r],
        requests :=
          (if r < length (requests st) \<and> requests st ! r = Awaiting_toolExecutionComplete
           then (requests st)[r := Finished] else requests st)\<rparr>"

text \<open>
  The block the three handlers repeat in both branches:
  \<^verbatim>\<open>if (extra?.sessionId && completionCallbacks[extra.sessionId]) {
    completionCallbacks[extra.sessionId]();
  }\<close>
  The empty string is falsy. \<open>extra.sessionId\<close> is the identifier the SDK gave
  the transport (a random UUID), never a property name of \<open>Object.prototype\<close>, so
  the read is a read of the table's own entries.
\<close>

definition signal_completion :: "extra option \<Rightarrow> state \<Rightarrow> state" where
  "signal_completion x st =
     (case x of
        None \<Rightarrow> st
      | Some e \<Rightarrow>
          (case sessionId e of
             None \<Rightarrow> st
           | Some sid \<Rightarrow>
               if sid = '''' then st
               else (case completionCallbacks st sid of
                       None \<Rightarrow> st
                     | Some r \<Rightarrow> resolve r st)))"

text \<open>
  The guard of the signalling block on its own:
  \<open>extra?.sessionId && completionCallbacks[extra.sessionId]\<close> is truthy.
\<close>

definition completion_guard :: "extra option \<Rightarrow> state \<Rightarrow> bool" where
  "completion_guard x st =
     (case x of
        None \<Rightarrow> False
      | Some e \<Rightarrow>
          (case sessionId e of
             None \<Rightarrow> False
           | Some sid \<Rightarrow> sid \<noteq> '''' \<and> completionCallbacks st sid \<noteq> None))"

subsection \<open>Tool handlers\<close>

text \<open>
  Each handler awaits the remote call and then, in the \<open>try\<close> or the
  \<open>catch\<close> branch, signals and returns. Nothing is read from the tables before the
  \<open>await\<close>, so the state argument is the state when the remote call settles.
  The remote call is recorded in \<open>remote_calls\<close>. The handlers of
  \<open>push_text_message\<close> and \<open>push_flex_message\<close> differ in their input
  schema and their log lines only.
\<close>

definition success_result :: "string \<Rightarrow> tool_result" where
  "success_result json = \<lparr>isError = None, content = [TextContent json]\<rparr>"

definition error_result :: "js_error \<Rightarrow> tool_result" where
  "error_result error = \<lparr>isError = Some True, content = [TextContent (''Error: '' @ message error)]\<rparr>"

definition push_text_message ::
  "'r world \<Rightarrow> string option \<Rightarrow> line_message \<Rightarrow> extra option \<Rightarrow> state \<Rightarrow> tool_result \<times> state" where
  "push_text_message w userId msg x st =
     (let request = \<lparr>to = (case userId of Some u \<Rightarrow> u | None \<Rightarrow> destinationId (process_env w)),
                      messages = [msg]\<rparr>;
          st1 = st\<lparr>remote_calls := remote_calls st @ [PushMessage request]\<rparr>
      in case pushMessage (messagingApiClient w) request of
           Resolved response \<Rightarrow>
             (success_result (JSON_stringify w response), signal_completion x st1)
         | Rejected error \<Rightarrow>
             (error_result error, signal_completion x st1))"

definition push_flex_message ::
  "'r world \<Rightarrow> string option \<Rightarrow> line_message \<Rightarrow> extra option \<Rightarrow> state \<Rightarrow> tool_result \<times> state" where
  "push_flex_message w userId msg x st =
     (let request = \<lparr>to = (case userId of Some u \<Rightarrow> u | None \<Rightarrow> destinationId (process_env w)),
                      messages = [msg]\<rparr>;
          st1 = st\<lparr>remote_calls := remote_calls st @ [PushMessage request]\<rparr>
      in case pushMessage (messagingApiClient w) request of
           Resolved response \<Rightarrow>
             (success_result (JSON_stringify w response), signal_completion x st1)
         | Rejected error \<Rightarrow>
             (error_result error, signal_completion x st1))"

definition get_profile ::
  "'r world \<Rightarrow> string option \<Rightarrow> extra option \<Rightarrow> state \<Rightarrow> tool_result \<times> state" where
  "get_profile w userId x st =
     (let targetUserId = (case userId of Some u \<Rightarrow> u | None \<Rightarrow> destinationId (process_env w));
          st1 = st\<lparr>remote_calls := remote_calls st @ [GetProfile targetUserId]\<rparr>
      in case getProfile (messagingApiClient w) targetUserId of
           Resolved response \<Rightarrow>
             (success_result (JSON_stringify w response), signal_completion x st1)
         | Rejected error \<Rightarrow>
             (error_result error, signal_completion x st1))"

text \<open>A validated invocation of one of the three registered tools.\<close>

datatype tool_call =
    Push_text_message "string option" string
  | Push_flex_message "string option" string flex_container
  | Get_profile "string option"

fun call_tool :: "'r world \<Rightarrow> tool_call \<Rightarrow> extra option \<Rightarrow> state \<Rightarrow> tool_result \<times> state" where
  "call_tool w (Push_text_message userId txt) x st =
     push_text_message w userId (TextMessage txt) x st"
| "call_tool w (Push_flex_message userId alt c) x st =
     push_flex_message w userId (FlexMessage alt c) x st"
| "call_tool w (Get_profile userId) x st = get_profile w userId x st"

subsection \<open>HTTP endpoints\<close>

text \<open>\<open>GET /sse\<close>: the new transport is stored under its \<open>sessionId\<close>.\<close>

definition sse_connect :: "transport \<Rightarrow> state \<Rightarrow> state" where
  "sse_connect t st = st\<lparr>transports := (transports st)(transport_sessionId t \<mapsto> t)\<rparr>"

text \<open>The \<open>close\<close> listener of that connection.\<close>

definition on_close :: "transport \<Rightarrow> state \<Rightarrow> state" where
  "on_close t st =
     st\<lparr>transports := (transports st)(transport_sessionId t := None),
        completionCallbacks := (completionCallbacks st)(transport_sessionId t := None)\<rparr>"

definition error_processing_message :: http_response where
  "error_processing_message = \<lparr>status = 500, body = ''Error processing message''\<rparr>"

definition no_transport_found :: http_response where
  "no_transport_found = \<lparr>status = 400, body = ''No transport found for sessionId''\<rparr>"

text \<open>
  \<open>POST /messages\<close>, up to its first suspension. When \<open>transports[sessionId]\<close>
  is an own entry, the callback is stored and the request waits for
  \<open>handlePostMessage\<close>. When it is an inherited built-in, the test
  \<open>if (transport)\<close> succeeds as well, the callback is stored, and
  \<open>transport.handlePostMessage\<close> is not a function: the call throws a
  \<open>TypeError\<close> inside the \<open>try\<close>, and the \<open>catch\<close> block deletes the
  entry and answers 500. Otherwise the answer is 400. All of this happens before the
  first suspension. (For the key \<open>__proto__\<close> the assignment replaces the
  prototype of the table instead of storing an entry; the own entries, which are all
  that a read with a session identifier sees, are the same either way.)
\<close>

definition post_messages :: "string \<Rightarrow> state \<Rightarrow> state" where
  "post_messages sid st =
     (let r = length (requests st) in
      case js_get (transports st) sid of
        Own t \<Rightarrow>
          st\<lparr>completionCallbacks := (completionCallbacks st)(sid \<mapsto> r),
             requests := requests st @ [Awaiting_handlePostMessage sid]\<rparr>
      | Inherited \<Rightarrow>
          st\<lparr>completionCallbacks := ((completionCallbacks st)(sid \<mapsto> r))(sid := None),
             requests := requests st @ [Responded error_processing_message]\<rparr>
      | Undefined \<Rightarrow>
          st\<lparr>requests := requests st @ [Responded no_transport_found]\<rparr>)"

text \<open>How the SDK's \<open>handlePostMessage\<close> settles.\<close>

datatype handled = Returned | Threw

text \<open>
  The rest of \<open>POST /messages\<close>, run when \<open>handlePostMessage\<close> settles for
  request \<open>r\<close>. If it returned, the request awaits \<open>toolExecutionComplete\<close>,
  which does not suspend it when the promise is already resolved. If it threw, the
  \<open>catch\<close> block deletes \<open>completionCallbacks[sessionId]\<close> and answers 500.
\<close>

definition post_messages_resume :: "request_id \<Rightarrow> handled \<Rightarrow> state \<Rightarrow> state" where
  "post_messages_resume r h st =
     (if r < length (requests st) then
        (case requests st ! r of
           Awaiting_handlePostMessage sid \<Rightarrow>
             (case h of
                Returned \<Rightarrow>
                  st\<lparr>requests := (requests st)
                       [r := if r \<in> set (fired st) then Finished
                             else Awaiting_toolExecutionComplete]\<rparr>
              | Threw \<Rightarrow>
                  st\<lparr>completionCallbacks := (completionCallbacks st)(sid := None),
                     requests := (requests st)[r := Responded error_processing_message]\<rparr>)
         | _ \<Rightarrow> st)
      else st)"

subsection \<open>Interleavings\<close>

text \<open>
  An event is one uninterrupted segment of a callback: a new connection, the
  \<open>close\<close> of one, the first part of a \<open>POST /messages\<close>, its resumption
  when \<open>handlePostMessage\<close> has settled, and the part of a tool handler that
  follows its remote call.
\<close>

datatype event =
    SseConnect transport
  | Close transport
  | PostMessages string
  | HandlePostMessage request_id handled
  | ToolCall tool_call "extra option"

text \<open>A tool call returns its result to the SDK, which writes it to the channel.\<close>

fun step :: "'r world \<Rightarrow> event \<Rightarrow> state \<Rightarrow> state" where
  "step w (SseConnect t) st = sse_connect t st"
| "step w (Close t) st = on_close t st"
| "step w (PostMessages sid) st = post_messages sid st"
| "step w (HandlePostMessage r h) st = post_messages_resume r h st"
| "step w (ToolCall c x) st =
     (let (res, st') = call_tool w c x st
      in st'\<lparr>tool_results := tool_results st' @ [res]\<rparr>)"

fun run :: "'r world \<Rightarrow> event list \<Rightarrow> state \<Rightarrow> state" where
  "run w [] st = st"
| "run w (e # es) st = run w es (step w e st)"

subsection \<open>A concrete world for the examples\<close>

text \<open>
  \<open>DESTINATION_USER_ID\<close> is \<open>U0\<close>, every \<open>pushMessage\<close> is refused by the
  platform and every \<open>getProfile\<close> succeeds.
\<close>

definition demo_world :: "string world" where
  "demo_world =
     \<lparr>process_env = [''DESTINATION_USER_ID'' \<mapsto> ''U0''],
      messagingApiClient =
        \<lparr>pushMessage = (\<lambda>rq. Rejected (Error ''Bad Request'')),
         getProfile = (\<lambda>u. Resolved (''profile of '' @ u))\<rparr>,
      JSON_stringify = (\<lambda>r. ''<'' @ r @ ''>'')\<rparr>"

lemmas eval_defs =
  init_def demo_world_def sse_connect_def on_close_def post_messages_def
  post_messages_resume_def js_get_def object_prototype_properties_def
  push_text_message_def push_flex_message_def get_profile_def signal_completion_def
  completion_guard_def resolve_def success_result_def error_result_def destinationId_def
  error_processing_message_def no_transport_found_def Let_def

section \<open>Properties\<close>

subsection \<open>What a handler does to the state\<close>

lemma signal_completion_fields:
  "completionCallbacks (signal_completion x st) = completionCallbacks st"
  "transports (signal_completion x st) = transports st"
  "remote_calls (signal_completion x st) = remote_calls st"
  "tool_results (signal_completion x st) = tool_results st"
  by (simp_all add: signal_completion_def resolve_def split: option.splits)

lemma signal_completion_guarded:
  "signal_completion x st =
     (if completion_guard x st
      then resolve (the (completionCallbacks st (the (sessionId (the x))))) st else st)"
  by (auto simp: signal_completion_def completion_guard_def split: option.splits)

lemma call_tool_state:
  "\<exists>c'. snd (call_tool w c x st) =
         signal_completion x (st\<lparr>remote_calls := remote_calls st @ [c']\<rparr>)"
  by (cases c)
     (auto simp: push_text_message_def push_flex_message_def get_profile_def Let_def
           split: settled.splits)


subsection \<open>One result and one signal per invocation\<close>







subsection \<open>The result of a handler\<close>

text \<open>
  Claim C6. Each of the three handlers returns \<open>{ content: [{ type: "text", text }] }\<close>
  with the JSON encoding of the remote response when the remote call succeeds, and
  \<open>{ isError: true, content: [{ type: "text", text: "Error: " + message }] }\<close> when
  it throws. The rejection is a branch of the returned value: the handler returns in
  both cases and never rethrows.
\<close>

theorem outcome_to_tool_result:
  "fst (push_text_message w userId msg x st) =
     (case pushMessage (messagingApiClient w)
             \<lparr>to = (case userId of Some u \<Rightarrow> u | None \<Rightarrow> destinationId (process_env w)),
              messages = [msg]\<rparr> of
        Resolved response \<Rightarrow>
          \<lparr>isError = None, content = [TextContent (JSON_stringify w response)]\<rparr>
      | Rejected error \<Rightarrow>
          \<lparr>isError = Some True, content = [TextContent (''Error: '' @ message error)]\<rparr>)
   \<and> fst (push_flex_message w userId msg x st) =
     (case pushMessage (messagingApiClient w)
             \<lparr>to = (case userId of Some u \<Rightarrow> u | None \<Rightarrow> destinationId (process_env w)),
              messages = [msg]\<rparr> of
        Resolved response \<Rightarrow>
          \<lparr>isError = None, content = [TextContent (JSON_stringify w response)]\<rparr>
      | Rejected error \<Rightarrow>
          \<lparr>isError = Some True, content = [TextContent (''Error: '' @ message error)]\<rparr>)
   \<and> fst (get_profile w userId x st) =
     (case getProfile (messagingApiClient w)
             (case userId of Some u \<Rightarrow> u | None \<Rightarrow> destinationId (process_env w)) of
        Resolved response \<Rightarrow>
          \<lparr>isError = None, content = [TextContent (JSON_stringify w response)]\<rparr>
      | Rejected error \<Rightarrow>
          \<lparr>isError = Some True, content = [TextContent (''Error: '' @ message error)]\<rparr>)"
  by (simp add: push_text_message_def push_flex_message_def get_profile_def Let_def
                success_result_def error_result_def split: settled.splits)

theorem outcome_to_tool_result_witness:
  "fst (push_text_message demo_world (Some ''U7'') (TextMessage ''hi'') None init) =
     \<lparr>isError = Some True, content = [TextContent ''Error: Bad Request'']\<rparr>
   \<and> fst (get_profile demo_world (Some ''U7'') None init) =
     \<lparr>isError = None, content = [TextContent ''<profile of U7>'']\<rparr>"
  using outcome_to_tool_result [of demo_world "Some ''U7''" "TextMessage ''hi''" None init]
  by (simp add: demo_world_def)

text \<open>
  Claim C7. The invocation \<open>{ tool: "get_profile", arguments: { userId: "U1" } }\<close>
  asks the remote client for the profile of \<open>U1\<close> and yields one tool result whose
  text is the JSON encoding of exactly the value the client returned, whatever the
  session and the state.
\<close>

theorem get_profile_round_trip:
  assumes "getProfile (messagingApiClient w) ''U1'' = Resolved response"
  shows "tool_results (step w (ToolCall (Get_profile (Some ''U1'')) x) st) =
           tool_results st @ [\<lparr>isError = None, content = [TextContent (JSON_stringify w response)]\<rparr>]
         \<and> remote_calls (step w (ToolCall (Get_profile (Some ''U1'')) x) st) =
           remote_calls st @ [GetProfile ''U1'']"
  using assms
  by (simp add: get_profile_def Let_def success_result_def signal_completion_fields)

theorem get_profile_round_trip_witness:
  "getProfile (messagingApiClient demo_world) ''U1'' = Resolved ''profile of U1''
   \<and> tool_results
       (run demo_world
          [SseConnect (SSEServerTransport ''S1''), PostMessages ''S1'',
           ToolCall (Get_profile (Some ''U1'')) (Some \<lparr>sessionId = Some ''S1''\<rparr>)] init) =
       [\<lparr>isError = None, content = [TextContent ''<profile of U1>'']\<rparr>]"
proof -
  have h: "getProfile (messagingApiClient demo_world) ''U1'' = Resolved ''profile of U1''"
    by (simp add: demo_world_def)
  have t0: "tool_results
      (run demo_world [SseConnect (SSEServerTransport ''S1''), PostMessages ''S1''] init) = []"
    by (simp add: eval_defs)
  from get_profile_round_trip [OF h, of "Some \<lparr>sessionId = Some ''S1''\<rparr>"
      "run demo_world [SseConnect (SSEServerTransport ''S1''), PostMessages ''S1''] init"] h t0
  show ?thesis by (simp add: demo_world_def)
qed

subsection \<open>The destination of the remote call\<close>

text \<open>
  Claim C9. In each of the three tools the remote call goes to \<open>destinationId\<close>
  when \<open>userId\<close> is omitted and to exactly the given \<open>userId\<close> otherwise (also
  when it is the empty string, as \<open>??\<close> replaces only a missing value);
  \<open>destinationId\<close> is the value of \<open>DESTINATION_USER_ID\<close>, and the empty string
  when the variable is unset.
\<close>

theorem default_destination:
  "remote_calls (snd (push_text_message w None msg x st)) =
     remote_calls st @ [PushMessage \<lparr>to = destinationId (process_env w), messages = [msg]\<rparr>]
   \<and> remote_calls (snd (push_text_message w (Some u) msg x st)) =
     remote_calls st @ [PushMessage \<lparr>to = u, messages = [msg]\<rparr>]
   \<and> remote_calls (snd (push_flex_message w None msg x st)) =
     remote_calls st @ [PushMessage \<lparr>to = destinationId (process_env w), messages = [msg]\<rparr>]
   \<and> remote_calls (snd (push_flex_message w (Some u) msg x st)) =
     remote_calls st @ [PushMessage \<lparr>to = u, messages = [msg]\<rparr>]
   \<and> remote_calls (snd (get_profile w None x st)) =
     remote_calls st @ [GetProfile (destinationId (process_env w))]
   \<and> remote_calls (snd (get_profile w (Some u) x st)) =
     remote_calls st @ [GetProfile u]
   \<and> destinationId (process_env w) =
     (case process_env w ''DESTINATION_USER_ID'' of None \<Rightarrow> '''' | Some v \<Rightarrow> v)"
  by (simp add: push_text_message_def push_flex_message_def get_profile_def Let_def
                signal_completion_fields destinationId_def split: settled.splits option.splits)

theorem default_destination_witness:
  "remote_calls (snd (get_profile demo_world None None init)) = [GetProfile ''U0'']
   \<and> remote_calls (snd (get_profile demo_world (Some ''U1'') None init)) = [GetProfile ''U1'']
   \<and> remote_calls (snd (push_text_message (demo_world\<lparr>process_env := Map.empty\<rparr>) None
                            (TextMessage ''hi'') None init)) =
       [PushMessage \<lparr>to = '''', messages = [TextMessage ''hi'']\<rparr>]"
  using default_destination [of demo_world "TextMessage ''hi''" None init "''U1''"]
    default_destination [of "demo_world\<lparr>process_env := Map.empty\<rparr>" "TextMessage ''hi''"
      None init "''U1''"]
  by (simp add: demo_world_def init_def)

subsection \<open>A handler without a registered callback\<close>



subsection \<open>Requests that wait for their completion\<close>

lemma resolve_fields:
  "completionCallbacks (resolve r st) = completionCallbacks st"
  "transports (resolve r st) = transports st"
  "fired (resolve r st) = fired st @ [r]"
  "length (requests (resolve r st)) = length (requests st)"
  by (simp_all add: resolve_def)

lemma resolve_other:
  "r' \<noteq> r \<Longrightarrow> requests (resolve r' st) ! r = requests st ! r"
  by (simp add: resolve_def)

lemma signal_completion_length:
  "length (requests (signal_completion x st)) = length (requests st)"
  by (simp add: signal_completion_guarded resolve_fields)

lemma signal_completion_fired_mono:
  "set (fired st) \<subseteq> set (fired (signal_completion x st))"
  by (auto simp: signal_completion_guarded resolve_fields)

lemma signal_completion_awaits:
  "requests (signal_completion x st) ! r = requests st ! r
   \<or> r \<in> set (fired (signal_completion x st))"
  by (cases "completion_guard x st")
     (auto simp: signal_completion_guarded resolve_def nth_list_update)

lemma step_length_mono: "length (requests st) \<le> length (requests (step w e st))"
proof (cases e)
  case (ToolCall c x)
  obtain c' where "snd (call_tool w c x st) =
      signal_completion x (st\<lparr>remote_calls := remote_calls st @ [c']\<rparr>)"
    using call_tool_state by blast
  then show ?thesis using ToolCall
    by (simp add: case_prod_unfold signal_completion_length)
next
  case (HandlePostMessage r h)
  then show ?thesis
    by (simp add: post_messages_resume_def split: request_state.splits handled.splits)
qed (simp_all add: sse_connect_def on_close_def post_messages_def Let_def split: js_property.splits)

lemma step_fired_mono: "set (fired st) \<subseteq> set (fired (step w e st))"
proof (cases e)
  case (ToolCall c x)
  obtain c' where "snd (call_tool w c x st) =
      signal_completion x (st\<lparr>remote_calls := remote_calls st @ [c']\<rparr>)"
    using call_tool_state by blast
  then show ?thesis using ToolCall
      signal_completion_fired_mono [of "st\<lparr>remote_calls := remote_calls st @ [c']\<rparr>" x]
    by (simp add: case_prod_unfold)
next
  case (HandlePostMessage r h)
  then show ?thesis
    by (simp add: post_messages_resume_def split: request_state.splits handled.splits)
qed (simp_all add: sse_connect_def on_close_def post_messages_def Let_def split: js_property.splits)

text \<open>The only way out of \<open>await toolExecutionComplete\<close> is a call of the callback.\<close>

lemma step_awaits:
  assumes "r < length (requests st)" and "requests st ! r = Awaiting_toolExecutionComplete"
  shows "requests (step w e st) ! r = Awaiting_toolExecutionComplete
         \<or> r \<in> set (fired (step w e st))"
proof (cases e)
  case (ToolCall c x)
  obtain c' where "snd (call_tool w c x st) =
      signal_completion x (st\<lparr>remote_calls := remote_calls st @ [c']\<rparr>)"
    using call_tool_state by blast
  then show ?thesis using ToolCall assms
      signal_completion_awaits [of x "st\<lparr>remote_calls := remote_calls st @ [c']\<rparr>" r]
    by (auto simp: case_prod_unfold)
next
  case (HandlePostMessage r' h)
  then show ?thesis using assms
    by (auto simp: post_messages_resume_def nth_list_update
             split: request_state.splits handled.splits)
next
  case (PostMessages sid)
  then show ?thesis using assms
    by (simp add: post_messages_def Let_def nth_append split: js_property.splits)
qed (simp_all add: sse_connect_def on_close_def assms)

lemma run_awaits:
  "r < length (requests st) \<Longrightarrow>
   requests st ! r = Awaiting_toolExecutionComplete \<or> r \<in> set (fired st) \<Longrightarrow>
   requests (run w evs st) ! r = Awaiting_toolExecutionComplete
   \<or> r \<in> set (fired (run w evs st))"
proof (induction evs arbitrary: st)
  case Nil
  then show ?case by simp
next
  case (Cons e evs)
  have len: "r < length (requests (step w e st))"
    using Cons.prems(1) step_length_mono [of st w e] by simp
  have "requests (step w e st) ! r = Awaiting_toolExecutionComplete
        \<or> r \<in> set (fired (step w e st))"
    using Cons.prems step_awaits [of r st w e] step_fired_mono [of st w e] by blast
  with len show ?case using Cons.IH by simp
qed

text \<open>
  A request that waits and whose callback is in no entry of the table keeps waiting:
  a later \<open>POST\<close> stores the callback of a new request, and a handler can only
  call what the table holds.
\<close>

lemma step_orphan:
  assumes "r < length (requests st)"
    and "requests st ! r = Awaiting_toolExecutionComplete"
    and "\<forall>k. completionCallbacks st k \<noteq> Some r"
  shows "requests (step w e st) ! r = Awaiting_toolExecutionComplete
         \<and> (\<forall>k. completionCallbacks (step w e st) k \<noteq> Some r)"
proof (cases e)
  case (ToolCall c x)
  obtain c' where s: "snd (call_tool w c x st) =
      signal_completion x (st\<lparr>remote_calls := remote_calls st @ [c']\<rparr>)"
    using call_tool_state by blast
  let ?st1 = "st\<lparr>remote_calls := remote_calls st @ [c']\<rparr>"
  have "requests (signal_completion x ?st1) ! r = Awaiting_toolExecutionComplete"
  proof (cases "completion_guard x ?st1")
    case True
    then obtain sid r' where "completionCallbacks st sid = Some r'"
      and "signal_completion x ?st1 = resolve r' ?st1"
      by (auto simp: completion_guard_def signal_completion_def split: option.splits)
    moreover from this assms(3) have "r' \<noteq> r" by auto
    ultimately show ?thesis using assms(2) by (simp add: resolve_other)
  next
    case False
    then show ?thesis using assms(2) by (simp add: signal_completion_guarded)
  qed
  then show ?thesis using ToolCall s assms(3)
    by (simp add: case_prod_unfold signal_completion_fields)
next
  case (HandlePostMessage r' h)
  then show ?thesis using assms
    by (auto simp: post_messages_resume_def nth_list_update
             split: request_state.splits handled.splits)
next
  case (PostMessages sid)
  then show ?thesis using assms
    by (auto simp: post_messages_def Let_def nth_append split: js_property.splits)
qed (simp_all add: sse_connect_def on_close_def assms)

lemma run_orphan:
  "r < length (requests st) \<Longrightarrow>
   requests st ! r = Awaiting_toolExecutionComplete \<Longrightarrow>
   \<forall>k. completionCallbacks st k \<noteq> Some r \<Longrightarrow>
   requests (run w evs st) ! r = Awaiting_toolExecutionComplete"
proof (induction evs arbitrary: st)
  case Nil
  then show ?case by simp
next
  case (Cons e evs)
  have "r < length (requests (step w e st))"
    using Cons.prems(1) step_length_mono [of st w e] by simp
  moreover have "requests (step w e st) ! r = Awaiting_toolExecutionComplete
         \<and> (\<forall>k. completionCallbacks (step w e st) k \<noteq> Some r)"
    using step_orphan [OF Cons.prems] .
  ultimately show ?case using Cons.IH by simp
qed

subsection \<open>A second invocation on a busy session\<close>

text \<open>
  Claim C2 as stated fails. Two invocations are posted for \<open>S1\<close> before the first
  resolves. The second is neither refused nor queued: both requests go on to
  \<open>handlePostMessage\<close>, and the table entry of \<open>S1\<close> now holds the callback of
  the second request. When the two handlers end, both call that callback: the second
  request is released by the first handler, and the first request still waits.
\<close>

theorem second_invocation_counterexample:
  "requests (run demo_world
      [SseConnect (SSEServerTransport ''S1''), PostMessages ''S1'', PostMessages ''S1''] init) =
     [Awaiting_handlePostMessage ''S1'', Awaiting_handlePostMessage ''S1'']
   \<and> completionCallbacks (run demo_world
      [SseConnect (SSEServerTransport ''S1''), PostMessages ''S1''] init) ''S1'' = Some 0
   \<and> completionCallbacks (run demo_world
      [SseConnect (SSEServerTransport ''S1''), PostMessages ''S1'', PostMessages ''S1''] init) ''S1'' =
     Some 1
   \<and> requests (run demo_world
      [SseConnect (SSEServerTransport ''S1''), PostMessages ''S1'', PostMessages ''S1'',
       HandlePostMessage 0 Returned, HandlePostMessage 1 Returned,
       ToolCall (Get_profile None) (Some \<lparr>sessionId = Some ''S1''\<rparr>),
       ToolCall (Get_profile None) (Some \<lparr>sessionId = Some ''S1''\<rparr>)] init) =
     [Awaiting_toolExecutionComplete, Finished]
   \<and> fired (run demo_world
      [SseConnect (SSEServerTransport ''S1''), PostMessages ''S1'', PostMessages ''S1'',
       HandlePostMessage 0 Returned, HandlePostMessage 1 Returned,
       ToolCall (Get_profile None) (Some \<lparr>sessionId = Some ''S1''\<rparr>),
       ToolCall (Get_profile None) (Some \<lparr>sessionId = Some ''S1''\<rparr>)] init) = [1, 1]"
  by (simp add: eval_defs)

text \<open>
  Claim C2, amended. A second invocation submitted for an open session while a pending
  completion is registered is accepted like the first, with no busy failure and no
  queue: the request goes on to \<open>handlePostMessage\<close>, and its callback replaces
  the first invocation's entry in the table.
\<close>

theorem second_invocation_replaces:
  assumes "transports st sid = Some t"
    and "completionCallbacks st sid = Some r"
    and "r < length (requests st)"
  shows "completionCallbacks (post_messages sid st) sid = Some (length (requests st))
         \<and> length (requests st) \<noteq> r
         \<and> requests (post_messages sid st) = requests st @ [Awaiting_handlePostMessage sid]"
  using assms by (auto simp: post_messages_def js_get_def Let_def)

theorem second_invocation_replaces_witness:
  "transports (run demo_world [SseConnect (SSEServerTransport ''S1''), PostMessages ''S1''] init)
     ''S1'' = Some (SSEServerTransport ''S1'')
   \<and> completionCallbacks
       (run demo_world [SseConnect (SSEServerTransport ''S1''), PostMessages ''S1''] init)
       ''S1'' = Some 0
   \<and> completionCallbacks
       (post_messages ''S1''
          (run demo_world [SseConnect (SSEServerTransport ''S1''), PostMessages ''S1''] init))
       ''S1'' = Some 1"
proof -
  let ?st = "run demo_world [SseConnect (SSEServerTransport ''S1''), PostMessages ''S1''] init"
  have h1: "transports ?st ''S1'' = Some (SSEServerTransport ''S1'')"
    by (simp add: eval_defs)
  have h2: "completionCallbacks ?st ''S1'' = Some 0"
    by (simp add: eval_defs)
  have h3: "0 < length (requests ?st)"
    by (simp add: eval_defs)
  have l: "length (requests ?st) = 1"
    by (simp add: eval_defs)
  from second_invocation_replaces [OF h1 h2 h3] h1 h2 l
  show ?thesis by simp
qed

subsection \<open>Closing the channel during an invocation\<close>

text \<open>
  Claim C3 as stated fails. Session \<open>S1\<close> is closed while its invocation is in
  flight: both table entries are removed, but nothing is called. The handler that ends
  afterwards finds no entry, so the request still waits at
  \<open>await toolExecutionComplete\<close>.
\<close>

theorem close_in_flight_counterexample:
  "requests (run demo_world
      [SseConnect (SSEServerTransport ''S1''), PostMessages ''S1'',
       HandlePostMessage 0 Returned, Close (SSEServerTransport ''S1'')] init) =
     [Awaiting_toolExecutionComplete]
   \<and> requests (run demo_world
      [SseConnect (SSEServerTransport ''S1''), PostMessages ''S1'',
       HandlePostMessage 0 Returned, Close (SSEServerTransport ''S1''),
       ToolCall (Get_profile None) (Some \<lparr>sessionId = Some ''S1''\<rparr>)] init) =
     [Awaiting_toolExecutionComplete]
   \<and> fired (run demo_world
      [SseConnect (SSEServerTransport ''S1''), PostMessages ''S1'',
       HandlePostMessage 0 Returned, Close (SSEServerTransport ''S1''),
       ToolCall (Get_profile None) (Some \<lparr>sessionId = Some ''S1''\<rparr>)] init) = []"
  by (simp add: eval_defs)

text \<open>
  Claim C3, amended. When the channel of a session closes while an invocation is in
  flight, the close handler removes the session from the session table and removes the
  pending completion without calling it. The suspended request is not released: the
  close changes no request, and whatever happens afterwards the request still waits.
  (The request \<open>r\<close> is the one registered for the session: its callback is in no
  entry of another session.)
\<close>

theorem close_removes_never_releases:
  assumes "r < length (requests st)"
    and "requests st ! r = Awaiting_toolExecutionComplete"
    and "\<forall>k. completionCallbacks st k = Some r \<longrightarrow> k = transport_sessionId t"
  shows "transports (on_close t st) (transport_sessionId t) = None
         \<and> completionCallbacks (on_close t st) (transport_sessionId t) = None
         \<and> fired (on_close t st) = fired st
         \<and> requests (on_close t st) = requests st
         \<and> requests (run w evs (on_close t st)) ! r = Awaiting_toolExecutionComplete"
proof -
  have "\<forall>k. completionCallbacks (on_close t st) k \<noteq> Some r"
    using assms(3) by (auto simp: on_close_def)
  moreover have "requests (on_close t st) = requests st" by (simp add: on_close_def)
  ultimately have "requests (run w evs (on_close t st)) ! r = Awaiting_toolExecutionComplete"
    using run_orphan [of r "on_close t st" w evs] assms(1,2) by simp
  then show ?thesis by (simp add: on_close_def)
qed

theorem close_removes_never_releases_witness:
  "requests (run demo_world
      [SseConnect (SSEServerTransport ''S1''), PostMessages ''S1'',
       HandlePostMessage 0 Returned] init) ! 0 = Awaiting_toolExecutionComplete
   \<and> requests (run demo_world
      [ToolCall (Push_text_message None ''hi'') (Some \<lparr>sessionId = Some ''S1''\<rparr>),
       SseConnect (SSEServerTransport ''S2''), PostMessages ''S2'']
      (on_close (SSEServerTransport ''S1'')
         (run demo_world
            [SseConnect (SSEServerTransport ''S1''), PostMessages ''S1'',
             HandlePostMessage 0 Returned] init))) ! 0 = Awaiting_toolExecutionComplete"
proof -
  let ?st = "run demo_world
      [SseConnect (SSEServerTransport ''S1''), PostMessages ''S1'',
       HandlePostMessage 0 Returned] init"
  have h1: "0 < length (requests ?st)" by (simp add: eval_defs)
  have h2: "requests ?st ! 0 = Awaiting_toolExecutionComplete" by (simp add: eval_defs)
  have h3: "\<forall>k. completionCallbacks ?st k = Some 0 \<longrightarrow>
                k = transport_sessionId (SSEServerTransport ''S1'')"
    by (simp add: eval_defs)
  from close_removes_never_releases [OF h1 h2 h3, of demo_world
      "[ToolCall (Push_text_message None ''hi'') (Some \<lparr>sessionId = Some ''S1''\<rparr>),
        SseConnect (SSEServerTransport ''S2''), PostMessages ''S2'']"] h2
  show ?thesis by simp
qed

subsection \<open>The life of a table entry\<close>

text \<open>
  Claim C4 as stated fails. After the invocation of \<open>S1\<close> has produced its result
  and released its request, the entry of \<open>S1\<close> is still in the table, although no
  new invocation has begun.
\<close>

theorem entry_remains_counterexample:
  "tool_results (run demo_world
      [SseConnect (SSEServerTransport ''S1''), PostMessages ''S1'',
       HandlePostMessage 0 Returned,
       ToolCall (Get_profile (Some ''U1'')) (Some \<lparr>sessionId = Some ''S1''\<rparr>)] init) =
     [\<lparr>isError = None, content = [TextContent ''<profile of U1>'']\<rparr>]
   \<and> requests (run demo_world
      [SseConnect (SSEServerTransport ''S1''), PostMessages ''S1'',
       HandlePostMessage 0 Returned,
       ToolCall (Get_profile (Some ''U1'')) (Some \<lparr>sessionId = Some ''S1''\<rparr>)] init) =
     [Finished]
   \<and> completionCallbacks (run demo_world
      [SseConnect (SSEServerTransport ''S1''), PostMessages ''S1'',
       HandlePostMessage 0 Returned,
       ToolCall (Get_profile (Some ''U1'')) (Some \<lparr>sessionId = Some ''S1''\<rparr>)] init) ''S1'' =
     Some 0"
  by (simp add: eval_defs)

text \<open>
  Claim C4, amended. The pending-completion entry of a session is created when an
  invocation begins, that is when \<open>POST /messages\<close> finds the session open.
  Producing the result calls the entry and does not remove it: the table is the same
  before and after a handler runs, for every tool, outcome and state.
\<close>

theorem entry_created_not_removed:
  "(transports st sid = Some t \<longrightarrow>
      completionCallbacks (post_messages sid st) sid = Some (length (requests st)))
   \<and> completionCallbacks (snd (call_tool w c x st)) = completionCallbacks st
   \<and> completionCallbacks (step w (ToolCall c x) st) = completionCallbacks st"
proof -
  obtain c' where s: "snd (call_tool w c x st) =
      signal_completion x (st\<lparr>remote_calls := remote_calls st @ [c']\<rparr>)"
    using call_tool_state by blast
  then show ?thesis
    by (simp add: post_messages_def js_get_def Let_def case_prod_unfold signal_completion_fields)
qed

theorem entry_created_not_removed_witness:
  "transports (sse_connect (SSEServerTransport ''S1'') init) ''S1'' = Some (SSEServerTransport ''S1'')
   \<and> completionCallbacks
       (post_messages ''S1'' (sse_connect (SSEServerTransport ''S1'') init)) ''S1'' = Some 0
   \<and> completionCallbacks
       (step demo_world (ToolCall (Get_profile None) (Some \<lparr>sessionId = Some ''S1''\<rparr>))
          (post_messages ''S1'' (sse_connect (SSEServerTransport ''S1'') init))) ''S1'' = Some 0"
proof -
  have h: "transports (sse_connect (SSEServerTransport ''S1'') init) ''S1'' =
           Some (SSEServerTransport ''S1'')"
    by (simp add: eval_defs)
  have l: "length (requests (sse_connect (SSEServerTransport ''S1'') init)) = 0"
    by (simp add: eval_defs)
  from entry_created_not_removed [of "sse_connect (SSEServerTransport ''S1'') init" "''S1''"
      "SSEServerTransport ''S1''" demo_world "Get_profile None" "Some \<lparr>sessionId = Some ''S1''\<rparr>"]
    entry_created_not_removed [of "post_messages ''S1'' (sse_connect (SSEServerTransport ''S1'') init)"
      "''S1''" "SSEServerTransport ''S1''" demo_world "Get_profile None"
      "Some \<lparr>sessionId = Some ''S1''\<rparr>"] h l
  show ?thesis by simp
qed

subsection \<open>A request for an unknown session\<close>

text \<open>
  A key that is neither a stored session nor a property name of \<open>Object.prototype\<close>
  is answered with 400, and nothing else changes.
\<close>

lemma post_messages_unknown_session:
  assumes "transports st sid = None" and "sid \<notin> set object_prototype_properties"
  shows "post_messages sid st = st\<lparr>requests := requests st @ [Responded no_transport_found]\<rparr>"
  using assms by (simp add: post_messages_def js_get_def)

text \<open>
  Claim C5. A \<open>POST\<close> whose \<open>sessionId\<close> matches no stored session is to be
  answered with 400 and to register nothing. With no session stored at all, the
  request \<open>POST /messages?sessionId=constructor\<close> is answered with 500:
  \<open>transports["constructor"]\<close> is the inherited function \<open>Object\<close>, so the
  \<open>else\<close> branch is not taken, the callback is stored, the call of the missing
  method \<open>handlePostMessage\<close> throws, and the \<open>catch\<close> block deletes the entry
  and sends the error.
\<close>

theorem inherited_key_answers_500:
  "transports init ''constructor'' = None
   \<and> requests (post_messages ''constructor'' init) =
       [Responded \<lparr>status = 500, body = ''Error processing message''\<rparr>]
   \<and> requests (post_messages ''no-such-session'' init) =
       [Responded \<lparr>status = 400, body = ''No transport found for sessionId''\<rparr>]"
  by (simp add: eval_defs)

subsection \<open>No timeout\<close>

text \<open>
  Claim C8 as stated fails. The message posted for \<open>S1\<close> starts no tool handler,
  so its completion is never signalled. The server goes on to serve a whole invocation
  of another session; the first request still waits and has been sent no error.
\<close>

theorem never_resolved_counterexample:
  "requests (run demo_world
      [SseConnect (SSEServerTransport ''S1''), PostMessages ''S1'',
       HandlePostMessage 0 Returned,
       SseConnect (SSEServerTransport ''S2''), PostMessages ''S2'',
       HandlePostMessage 1 Returned,
       ToolCall (Get_profile None) (Some \<lparr>sessionId = Some ''S2''\<rparr>)] init) =
     [Awaiting_toolExecutionComplete, Finished]
   \<and> fired (run demo_world
      [SseConnect (SSEServerTransport ''S1''), PostMessages ''S1'',
       HandlePostMessage 0 Returned,
       SseConnect (SSEServerTransport ''S2''), PostMessages ''S2'',
       HandlePostMessage 1 Returned,
       ToolCall (Get_profile None) (Some \<lparr>sessionId = Some ''S2''\<rparr>)] init) = [1]"
  by (simp add: eval_defs)

text \<open>
  Claim C8, amended. There is no timeout. A request that waits for its completion is
  released only by a call of its completion callback: along every sequence of events
  in which that callback is never called, the request still waits, and so has been
  sent no internal-error status.
\<close>

theorem no_timeout:
  assumes "r < length (requests st)"
    and "requests st ! r = Awaiting_toolExecutionComplete"
    and "r \<notin> set (fired (run w evs st))"
  shows "requests (run w evs st) ! r = Awaiting_toolExecutionComplete"
  using run_awaits [of r st w evs] assms by blast

theorem no_timeout_witness:
  "requests (run demo_world
      [SseConnect (SSEServerTransport ''S1''), PostMessages ''S1'',
       HandlePostMessage 0 Returned] init) ! 0 = Awaiting_toolExecutionComplete
   \<and> 0 \<notin> set (fired (run demo_world
      [SseConnect (SSEServerTransport ''S2''), PostMessages ''S2'',
       ToolCall (Get_profile None) (Some \<lparr>sessionId = Some ''S2''\<rparr>)]
      (run demo_world
        [SseConnect (SSEServerTransport ''S1''), PostMessages ''S1'',
         HandlePostMessage 0 Returned] init)))
   \<and> requests (run demo_world
      [SseConnect (SSEServerTransport ''S2''), PostMessages ''S2'',
       ToolCall (Get_profile None) (Some \<lparr>sessionId = Some ''S2''\<rparr>)]
      (run demo_world
        [SseConnect (SSEServerTransport ''S1''), PostMessages ''S1'',
         HandlePostMessage 0 Returned] init)) ! 0 = Awaiting_toolExecutionComplete"
proof -
  let ?st = "run demo_world
      [SseConnect (SSEServerTransport ''S1''), PostMessages ''S1'',
       HandlePostMessage 0 Returned] init"
  let ?evs = "[SseConnect (SSEServerTransport ''S2''), PostMessages ''S2'',
       ToolCall (Get_profile None) (Some \<lparr>sessionId = Some ''S2''\<rparr>)]"
  have h1: "0 < length (requests ?st)" by (simp add: eval_defs)
  have h2: "requests ?st ! 0 = Awaiting_toolExecutionComplete" by (simp add: eval_defs)
  have h3: "0 \<notin> set (fired (run demo_world ?evs ?st))" by (simp add: eval_defs)
  from no_timeout [OF h1 h2 h3] h2 h3
  show ?thesis by simp
qed

end
